theory Spec2Isabelle
  imports Complex_Main
begin

section \<open>JavaScript numbers\<close>

text \<open>
  Every number of the program is a JavaScript \<open>number\<close>. The model keeps the three
  special values the code relies on (\<open>Infinity\<close>, \<open>-Infinity\<close>, \<open>NaN\<close>) and
  takes the finite values as real numbers with exact arithmetic: rounding error,
  overflow to an infinity and the sign of zero are not modelled. The only divisors that
  can be zero in the code below are differences \<open>a - a\<close>, which are \<open>+0\<close>.
\<close>

datatype jsnum = Num real | PosInf | NegInf | NaN

fun js_lt :: "jsnum \<Rightarrow> jsnum \<Rightarrow> bool" where
  "js_lt (Num a) (Num b) = (a < b)"
| "js_lt (Num a) PosInf = True"
| "js_lt NegInf (Num b) = True"
| "js_lt NegInf PosInf = True"
| "js_lt _ _ = False"

definition js_gt :: "jsnum \<Rightarrow> jsnum \<Rightarrow> bool" where
  "js_gt a b = js_lt b a"

fun js_eq :: "jsnum \<Rightarrow> jsnum \<Rightarrow> bool" where
  "js_eq NaN _ = False"
| "js_eq _ NaN = False"
| "js_eq a b = (a = b)"

definition js_le :: "jsnum \<Rightarrow> jsnum \<Rightarrow> bool" where
  "js_le a b = (js_lt a b \<or> js_eq a b)"

definition js_ge :: "jsnum \<Rightarrow> jsnum \<Rightarrow> bool" where
  "js_ge a b = js_le b a"

fun js_neg :: "jsnum \<Rightarrow> jsnum" where
  "js_neg (Num a) = Num (- a)"
| "js_neg PosInf = NegInf"
| "js_neg NegInf = PosInf"
| "js_neg NaN = NaN"

fun js_add :: "jsnum \<Rightarrow> jsnum \<Rightarrow> jsnum" where
  "js_add (Num a) (Num b) = Num (a + b)"
| "js_add NaN _ = NaN"
| "js_add _ NaN = NaN"
| "js_add PosInf NegInf = NaN"
| "js_add NegInf PosInf = NaN"
| "js_add PosInf _ = PosInf"
| "js_add NegInf _ = NegInf"
| "js_add (Num a) b = b"

definition js_sub :: "jsnum \<Rightarrow> jsnum \<Rightarrow> jsnum" where
  "js_sub a b = js_add a (js_neg b)"

text \<open>The sign of a number: \<open>None\<close> for \<open>NaN\<close>, else \<open>-1\<close>, \<open>0\<close> or \<open>1\<close>.\<close>

fun js_sign :: "jsnum \<Rightarrow> int option" where
  "js_sign (Num a) = Some (if a < 0 then - 1 else if a = 0 then 0 else 1)"
| "js_sign PosInf = Some 1"
| "js_sign NegInf = Some (- 1)"
| "js_sign NaN = None"

definition js_inf :: "int \<Rightarrow> jsnum" where
  "js_inf s = (if s = 0 then NaN else if s < 0 then NegInf else PosInf)"

fun js_mul :: "jsnum \<Rightarrow> jsnum \<Rightarrow> jsnum" where
  "js_mul (Num a) (Num b) = Num (a * b)"
| "js_mul a b =
     (case (js_sign a, js_sign b) of
        (Some s, Some t) \<Rightarrow> js_inf (s * t)
      | _ \<Rightarrow> NaN)"

fun js_div :: "jsnum \<Rightarrow> jsnum \<Rightarrow> jsnum" where
  "js_div (Num a) (Num b) =
     (if b = 0 then (if a = 0 then NaN else if a < 0 then NegInf else PosInf)
      else Num (a / b))"
| "js_div NaN _ = NaN"
| "js_div _ NaN = NaN"
| "js_div (Num a) _ = Num 0"
| "js_div a (Num b) = (if b < 0 then js_neg a else a)"
| "js_div _ _ = NaN"

fun js_abs :: "jsnum \<Rightarrow> jsnum" where
  "js_abs (Num a) = Num \<bar>a\<bar>"
| "js_abs NaN = NaN"
| "js_abs _ = PosInf"

text \<open>\<open>Math.round\<close>: the nearest integer, a half rounded towards \<open>+Infinity\<close>.\<close>

fun js_round :: "jsnum \<Rightarrow> jsnum" where
  "js_round (Num a) = Num (of_int \<lfloor>a + 1 / 2\<rfloor>)"
| "js_round a = a"

text \<open>\<open>Math.min\<close> of two arguments: \<open>NaN\<close> when either is \<open>NaN\<close>.\<close>

fun js_min :: "jsnum \<Rightarrow> jsnum \<Rightarrow> jsnum" where
  "js_min NaN _ = NaN"
| "js_min _ NaN = NaN"
| "js_min a b = (if js_lt b a then b else a)"

fun isFinite :: "jsnum \<Rightarrow> bool" where
  "isFinite (Num a) = True"
| "isFinite _ = False"

section \<open>proficiencyToFraction (src/landing-helpers.ts, lines 93 to 119)\<close>

record fraction =
  numerator :: jsnum
  denominator :: jsnum

text \<open>
  The loop state is \<open>(bestNum, bestDen, bestError)\<close>; \<open>fractionStep\<close> is one
  iteration of \<open>for (const den of denominators)\<close>.
\<close>

definition fractionStep :: "jsnum \<Rightarrow> jsnum \<times> jsnum \<times> jsnum \<Rightarrow> jsnum \<Rightarrow> jsnum \<times> jsnum \<times> jsnum" where
  "fractionStep belowProficient best den =
     (case best of (bestNum, bestDen, bestError) \<Rightarrow>
        let num = js_round (js_mul belowProficient den);
            error = js_abs (js_sub (js_div num den) belowProficient)
        in if js_lt error bestError \<or> (js_eq error bestError \<and> js_gt den bestDen)
           then (num, den, error)
           else (bestNum, bestDen, bestError))"

definition proficiencyToFraction :: "jsnum \<Rightarrow> fraction" where
  "proficiencyToFraction proficiency =
     (let belowProficient = js_sub (Num 1) proficiency;
          denominators = [Num 4, Num 5, Num 10]
      in case foldl (fractionStep belowProficient) (Num 0, Num 10, PosInf) denominators of
           (bestNum, bestDen, bestError) \<Rightarrow>
             let bestNum1 = (if js_le bestNum (Num 0) then Num 1 else bestNum);
                 bestNum2 = (if js_ge bestNum1 bestDen then js_sub bestDen (Num 1) else bestNum1)
             in \<lparr>numerator = bestNum2, denominator = bestDen\<rparr>)"

text \<open>
  The words of the description of \<open>proficiencyToFraction\<close>, over the reals: the
  nearest integer to \<open>b * den\<close>, the error of that candidate, the denominator with the
  least error (the largest one among equals), and the final clamp.
\<close>

definition candidateNum :: "real \<Rightarrow> int \<Rightarrow> int" where
  "candidateNum b den = round (b * of_int den)"

definition candidateError :: "real \<Rightarrow> int \<Rightarrow> real" where
  "candidateError b den = \<bar>of_int (candidateNum b den) / of_int den - b\<bar>"

definition chosenDen :: "real \<Rightarrow> int" where
  "chosenDen b =
     (if candidateError b 10 \<le> candidateError b 4 \<and> candidateError b 10 \<le> candidateError b 5 then 10
      else if candidateError b 5 \<le> candidateError b 4 then 5
      else 4)"

definition clampNum :: "int \<Rightarrow> int \<Rightarrow> int" where
  "clampNum n den = (if n \<le> 0 then 1 else if den \<le> n then den - 1 else n)"

section \<open>Strings: \<open>trim\<close>, \<open>toLowerCase\<close> and \<open>ADMIN_PATTERN\<close>\<close>

text \<open>
  Strings are sequences of ASCII characters. \<open>trim\<close> removes the ASCII white space
  (tab, line feed, vertical tab, form feed, carriage return, space) at both ends.
\<close>

definition isSpace :: "char \<Rightarrow> bool" where
  "isSpace c = (c \<in> set [CHR 0x09, CHR 0x0A, CHR 0x0B, CHR 0x0C, CHR 0x0D, CHR '' ''])"

definition trim :: "string \<Rightarrow> string" where
  "trim s = rev (dropWhile isSpace (rev (dropWhile isSpace s)))"

definition toLowerChar :: "char \<Rightarrow> char" where
  "toLowerChar c =
     (let n = (of_char c :: nat) in if 65 \<le> n \<and> n \<le> 90 then char_of (n + 32) else c)"

definition toLowerCase :: "string \<Rightarrow> string" where
  "toLowerCase s = map toLowerChar s"

text \<open>A word character of a regular expression: \<open>[A-Za-z0-9_]\<close>.\<close>

definition isWordChar :: "char \<Rightarrow> bool" where
  "isWordChar c =
     (let n = (of_char c :: nat)
      in (65 \<le> n \<and> n \<le> 90) \<or> (97 \<le> n \<and> n \<le> 122) \<or> (48 \<le> n \<and> n \<le> 57) \<or> n = 95)"

definition adminWords :: "string list" where
  "adminWords = [''township'', ''county'', ''borough'', ''parish'', ''district'',
                 ''division'', ''precinct'', ''unincorporated'']"

text \<open>
  \<open>/^(township|...|unincorporated)\b/i\<close>: the string starts with one of the words,
  letters compared without case, and the word ends there (end of the string, or a
  character that is not a word character).
\<close>

definition matchesWord :: "string \<Rightarrow> string \<Rightarrow> bool" where
  "matchesWord s w =
     (toLowerCase (take (length w) s) = w \<and>
      (case drop (length w) s of [] \<Rightarrow> True | c # _ \<Rightarrow> \<not> isWordChar c))"

definition ADMIN_PATTERN :: "string \<Rightarrow> bool" where
  "ADMIN_PATTERN s = list_ex (matchesWord s) adminWords"

section \<open>\<open>Array.prototype.sort\<close> with a comparator\<close>

text \<open>
  The sort is stable: \<open>insertBy\<close> puts an element before the first one it does not
  have to follow (a comparator result that is not positive, \<open>NaN\<close> included).
\<close>

fun insertBy :: "('a \<Rightarrow> 'a \<Rightarrow> jsnum) \<Rightarrow> 'a \<Rightarrow> 'a list \<Rightarrow> 'a list" where
  "insertBy cmp a [] = [a]"
| "insertBy cmp a (b # bs) =
     (if js_gt (cmp a b) (Num 0) then b # insertBy cmp a bs else a # b # bs)"

definition sortBy :: "('a \<Rightarrow> 'a \<Rightarrow> jsnum) \<Rightarrow> 'a list \<Rightarrow> 'a list" where
  "sortBy cmp as = foldr (insertBy cmp) as []"

section \<open>extractLocationLabel (src/landing-helpers.ts, lines 52 to 85 and 168 to 201)\<close>

record localityEntry =
  name :: string
  order :: "jsnum option"
  adminLevel :: "jsnum option"
  description :: "string option"

record localityInfo =
  administrative :: "localityEntry list option"
  informative :: "localityEntry list option"

record BigDataCloudResponse =
  city :: "string option"
  locality :: "string option"
  principalSubdivision :: "string option"
  principalSubdivisionCode :: "string option"
  localityInfo :: "localityInfo option"

text \<open>\<open>v ?? 0\<close>\<close>

definition orZero :: "jsnum option \<Rightarrow> jsnum" where
  "orZero v = (case v of None \<Rightarrow> Num 0 | Some n \<Rightarrow> n)"

text \<open>
  The function of the module as it stands (lines 52 to 85): locality, city,
  administrative entries, state name. Each step is the value its \<open>return\<close> gives, or
  \<open>None\<close> when its condition fails.
\<close>

definition localityStep :: "BigDataCloudResponse \<Rightarrow> string option" where
  "localityStep geo =
     (case locality geo of
        None \<Rightarrow> None
      | Some l \<Rightarrow> if trim l \<noteq> [] \<and> \<not> ADMIN_PATTERN (trim l) then Some (trim l) else None)"

definition cityStep :: "BigDataCloudResponse \<Rightarrow> string option" where
  "cityStep geo =
     (case city geo of
        None \<Rightarrow> None
      | Some c \<Rightarrow> if trim c \<noteq> [] \<and> \<not> ADMIN_PATTERN (trim c) then Some (trim c) else None)"

definition adminCandidate :: "localityEntry \<Rightarrow> bool" where
  "adminCandidate e =
     (case adminLevel e of
        None \<Rightarrow> False
      | Some lv \<Rightarrow> js_ge lv (Num 8) \<and> name e \<noteq> [] \<and> \<not> ADMIN_PATTERN (trim (name e)))"

definition byAdminLevelDesc :: "localityEntry \<Rightarrow> localityEntry \<Rightarrow> jsnum" where
  "byAdminLevelDesc a b = js_sub (orZero (adminLevel b)) (orZero (adminLevel a))"

definition administrativeStep :: "BigDataCloudResponse \<Rightarrow> string option" where
  "administrativeStep geo =
     (case localityInfo geo of
        None \<Rightarrow> None
      | Some li \<Rightarrow>
          (case administrative li of
             None \<Rightarrow> None
           | Some entries \<Rightarrow>
               (case sortBy byAdminLevelDesc (filter adminCandidate entries) of
                  [] \<Rightarrow> None
                | c # _ \<Rightarrow> Some (name c))))"

definition subdivisionStep :: "BigDataCloudResponse \<Rightarrow> string option" where
  "subdivisionStep geo =
     (case principalSubdivision geo of
        None \<Rightarrow> None
      | Some p \<Rightarrow> if trim p \<noteq> [] then Some (trim p) else None)"

definition extractLocationLabel :: "BigDataCloudResponse \<Rightarrow> string" where
  "extractLocationLabel geo =
     (case localityStep geo of
        Some r \<Rightarrow> r
      | None \<Rightarrow>
          (case cityStep geo of
             Some r \<Rightarrow> r
           | None \<Rightarrow>
               (case administrativeStep geo of
                  Some r \<Rightarrow> r
                | None \<Rightarrow>
                    (case subdivisionStep geo of
                       Some r \<Rightarrow> r
                     | None \<Rightarrow> []))))"

text \<open>
  The earlier function of the same module (lines 168 to 201), which the one above
  replaced: informative entries, city, locality, state name.
\<close>

definition informativeCandidate :: "localityEntry \<Rightarrow> bool" where
  "informativeCandidate e =
     (case order e of
        None \<Rightarrow> False
      | Some od \<Rightarrow> js_ge od (Num 4) \<and> name e \<noteq> [] \<and> \<not> ADMIN_PATTERN (trim (name e)))"

definition byOrderDesc :: "localityEntry \<Rightarrow> localityEntry \<Rightarrow> jsnum" where
  "byOrderDesc a b = js_sub (orZero (order b)) (orZero (order a))"

definition informativeStep :: "BigDataCloudResponse \<Rightarrow> string option" where
  "informativeStep geo =
     (case localityInfo geo of
        None \<Rightarrow> None
      | Some li \<Rightarrow>
          (case informative li of
             None \<Rightarrow> None
           | Some entries \<Rightarrow>
               (case sortBy byOrderDesc (filter informativeCandidate entries) of
                  [] \<Rightarrow> None
                | c # _ \<Rightarrow> Some (name c))))"

definition cityStepUnfiltered :: "BigDataCloudResponse \<Rightarrow> string option" where
  "cityStepUnfiltered geo =
     (case city geo of
        None \<Rightarrow> None
      | Some c \<Rightarrow> if c \<noteq> [] \<and> trim c \<noteq> [] then Some (trim c) else None)"

definition localityStepChecked :: "BigDataCloudResponse \<Rightarrow> string option" where
  "localityStepChecked geo =
     (case locality geo of
        None \<Rightarrow> None
      | Some l \<Rightarrow>
          if l \<noteq> [] \<and> trim l \<noteq> [] \<and> \<not> ADMIN_PATTERN (trim l) then Some (trim l) else None)"

definition subdivisionStepChecked :: "BigDataCloudResponse \<Rightarrow> string option" where
  "subdivisionStepChecked geo =
     (case principalSubdivision geo of
        None \<Rightarrow> None
      | Some p \<Rightarrow> if p \<noteq> [] \<and> trim p \<noteq> [] then Some (trim p) else None)"

definition extractLocationLabelInformativeFirst :: "BigDataCloudResponse \<Rightarrow> string" where
  "extractLocationLabelInformativeFirst geo =
     (case informativeStep geo of
        Some r \<Rightarrow> r
      | None \<Rightarrow>
          (case cityStepUnfiltered geo of
             Some r \<Rightarrow> r
           | None \<Rightarrow>
               (case localityStepChecked geo of
                  Some r \<Rightarrow> r
                | None \<Rightarrow>
                    (case subdivisionStepChecked geo of
                       Some r \<Rightarrow> r
                     | None \<Rightarrow> []))))"

section \<open>getStateBBoxFromTopology (e2e/serve.mjs, lines 70 to 124)\<close>

text \<open>
  The files the functions read are arguments of the model, already parsed. The errors
  are the three \<open>throw new Error\<close> of the source and the \<open>TypeError\<close> of reading a
  property of \<open>undefined\<close>.
\<close>

datatype error = MissingGeometry string | MissingCity string | NoPoints | TypeError

type_synonym xy = "jsnum \<times> jsnum"

record transform =
  scale :: xy
  translate :: xy

text \<open>
  A geometry carries its \<open>id\<close> and its \<open>arcs\<close>: lists of rings for the type
  \<open>"MultiPolygon"\<close>, one list of rings for any other type.
\<close>

datatype geometry = Polygon string "int list list" | MultiPolygon string "int list list list"

fun geometryId :: "geometry \<Rightarrow> string" where
  "geometryId (Polygon i a) = i"
| "geometryId (MultiPolygon i a) = i"

record topology =
  transform :: "transform option"
  arcs :: "xy list list"
  geometries :: "geometry list"

record bbox =
  bb_x0 :: jsnum
  bb_y0 :: jsnum
  bb_x1 :: jsnum
  bb_y1 :: jsnum
  bb_w :: jsnum
  bb_h :: jsnum

text \<open>The body of \<open>arc.map\<close>, with the running sums \<open>x\<close> and \<open>y\<close>.\<close>

fun decodeArc :: "xy \<Rightarrow> xy \<Rightarrow> jsnum \<Rightarrow> jsnum \<Rightarrow> xy list \<Rightarrow> xy list" where
  "decodeArc sc tr x y [] = []"
| "decodeArc sc tr x y (p # ps) =
     (let x' = js_add x (fst p); y' = js_add y (snd p)
      in (js_add (js_mul x' (fst sc)) (fst tr), js_add (js_mul y' (snd sc)) (snd tr))
         # decodeArc sc tr x' y' ps)"

definition decodeArcs :: "topology \<Rightarrow> xy list list" where
  "decodeArcs topo =
     (let t = (case transform topo of
                 None \<Rightarrow> \<lparr>scale = (Num 1, Num 1), translate = (Num 0, Num 0)\<rparr>
               | Some t \<Rightarrow> t)
      in map (decodeArc (scale t) (translate t) (Num 0) (Num 0)) (arcs topo))"

text \<open>
  \<open>i >= 0 ? decoded[i] : decoded[~i].slice().reverse()\<close>, where \<open>~i = - i - 1\<close>;
  an index outside the array gives \<open>undefined\<close>, and the read of its length throws.
\<close>

definition arcAt :: "xy list list \<Rightarrow> int \<Rightarrow> xy list option" where
  "arcAt decoded i =
     (if 0 \<le> i
      then (if nat i < length decoded then Some (decoded ! nat i) else None)
      else (if nat (- i - 1) < length decoded then Some (rev (decoded ! nat (- i - 1))) else None))"

fun ringLoop :: "xy list list \<Rightarrow> xy list \<Rightarrow> int list \<Rightarrow> error + xy list" where
  "ringLoop decoded coords [] = Inr coords"
| "ringLoop decoded coords (i # idx) =
     (case arcAt decoded i of
        None \<Rightarrow> Inl TypeError
      | Some arc \<Rightarrow> ringLoop decoded (coords @ (if coords = [] then arc else tl arc)) idx)"

definition ring :: "xy list list \<Rightarrow> int list \<Rightarrow> error + xy list" where
  "ring decoded idx = ringLoop decoded [] idx"

text \<open>\<open>a.map(f)\<close> for an \<open>f\<close> that can throw: the first error ends the map.\<close>

fun mapE :: "('a \<Rightarrow> error + 'b) \<Rightarrow> 'a list \<Rightarrow> error + 'b list" where
  "mapE f [] = Inr []"
| "mapE f (a # as) =
     (case f a of
        Inl e \<Rightarrow> Inl e
      | Inr b \<Rightarrow> (case mapE f as of Inl e \<Rightarrow> Inl e | Inr bs \<Rightarrow> Inr (b # bs)))"

definition polysOf :: "xy list list \<Rightarrow> geometry \<Rightarrow> error + xy list list list" where
  "polysOf decoded geom =
     (case geom of
        MultiPolygon i a \<Rightarrow> mapE (mapE (ring decoded)) a
      | Polygon i a \<Rightarrow> (case mapE (ring decoded) a of Inl e \<Rightarrow> Inl e | Inr rs \<Rightarrow> Inr [rs]))"

text \<open>One pass of the innermost loop: the accumulator is \<open>(x0, y0, x1, y1)\<close>.\<close>

definition extendBounds :: "jsnum \<times> jsnum \<times> jsnum \<times> jsnum \<Rightarrow> xy \<Rightarrow> jsnum \<times> jsnum \<times> jsnum \<times> jsnum" where
  "extendBounds acc p =
     (case acc of (a0, b0, a1, b1) \<Rightarrow>
        (if js_lt (fst p) a0 then fst p else a0,
         if js_lt (snd p) b0 then snd p else b0,
         if js_gt (fst p) a1 then fst p else a1,
         if js_gt (snd p) b1 then snd p else b1))"

definition getStateBBoxFromTopology :: "topology \<Rightarrow> string \<Rightarrow> error + bbox" where
  "getStateBBoxFromTopology topo fips =
     (let decoded = decodeArcs topo
      in case find (\<lambda>g. geometryId g = fips) (geometries topo) of
           None \<Rightarrow> Inl (MissingGeometry fips)
         | Some geom \<Rightarrow>
             (case polysOf decoded geom of
                Inl e \<Rightarrow> Inl e
              | Inr polys \<Rightarrow>
                  (case foldl (foldl (foldl extendBounds)) (PosInf, PosInf, NegInf, NegInf) polys of
                     (a0, b0, a1, b1) \<Rightarrow>
                       Inr \<lparr>bb_x0 = a0, bb_y0 = b0, bb_x1 = a1, bb_y1 = b1,
                            bb_w = js_sub a1 a0, bb_h = js_sub b1 b0\<rparr>)))"

section \<open>getExpectedAlignedCityPoint (e2e/serve.mjs, lines 126 to 169)\<close>

text \<open>
  A point of a state's data: its name and its coordinates, a missing coordinate being
  \<open>NaN\<close> (it is not finite, and arithmetic on it gives \<open>NaN\<close>).
\<close>

record statePoint =
  pointName :: string
  pointX :: jsnum
  pointY :: jsnum

record stateData =
  cities :: "statePoint list option"
  districts :: "statePoint list option"
  schools :: "statePoint list option"

record alignedPoint =
  alignedX :: jsnum
  alignedY :: jsnum

text \<open>\<open>a || []\<close>\<close>

definition orEmpty :: "'a list option \<Rightarrow> 'a list" where
  "orEmpty a = (case a of None \<Rightarrow> [] | Some l \<Rightarrow> l)"

definition allPts :: "stateData \<Rightarrow> statePoint list" where
  "allPts sd =
     filter (\<lambda>p. isFinite (pointX p) \<and> isFinite (pointY p))
       (orEmpty (cities sd) @ orEmpty (districts sd) @ orEmpty (schools sd))"

text \<open>The loop over \<open>allPts\<close>; the accumulator is \<open>(dx0, dy0, dx1, dy1)\<close>.\<close>

definition cloudBounds :: "statePoint list \<Rightarrow> jsnum \<times> jsnum \<times> jsnum \<times> jsnum" where
  "cloudBounds pts = foldl (\<lambda>acc p. extendBounds acc (pointX p, pointY p)) (PosInf, PosInf, NegInf, NegInf) pts"

text \<open>Lines 154 to 168: the placement of \<open>city\<close>, given the frame and the bounds.\<close>

definition alignInto :: "bbox \<Rightarrow> jsnum \<times> jsnum \<times> jsnum \<times> jsnum \<Rightarrow> statePoint \<Rightarrow> alignedPoint" where
  "alignInto bb bounds c =
     (case bounds of (dx0, dy0, dx1, dy1) \<Rightarrow>
        let dw = js_sub dx1 dx0;
            dh = js_sub dy1 dy0;
            pad = Num (4 / 100);
            availW = js_mul (bb_w bb) (js_sub (Num 1) (js_mul (Num 2) pad));
            availH = js_mul (bb_h bb) (js_sub (Num 1) (js_mul (Num 2) pad));
            alignScale = js_min (js_div availW dw) (js_div availH dh);
            scaledW = js_mul dw alignScale;
            scaledH = js_mul dh alignScale;
            ox = js_add (js_add (bb_x0 bb) (js_mul (bb_w bb) pad)) (js_div (js_sub availW scaledW) (Num 2));
            oy = js_add (js_add (bb_y0 bb) (js_mul (bb_h bb) pad)) (js_div (js_sub availH scaledH) (Num 2))
        in \<lparr>alignedX = js_add ox (js_mul (js_sub (pointX c) dx0) alignScale),
            alignedY = js_add oy (js_mul (js_sub (pointY c) dy0) alignScale)\<rparr>)"

definition getExpectedAlignedCityPoint ::
    "topology \<Rightarrow> stateData \<Rightarrow> string \<Rightarrow> string \<Rightarrow> string \<Rightarrow> error + alignedPoint" where
  "getExpectedAlignedCityPoint topo sd stateCode fips cityName =
     (case cities sd of
        None \<Rightarrow> Inl TypeError
      | Some cs \<Rightarrow>
          (case find (\<lambda>c. toLowerCase (pointName c) = toLowerCase cityName) cs of
             None \<Rightarrow> Inl (MissingCity cityName)
           | Some c \<Rightarrow>
               if allPts sd = [] then Inl NoPoints
               else (case getStateBBoxFromTopology topo fips of
                       Inl e \<Rightarrow> Inl e
                     | Inr bb \<Rightarrow> Inr (alignInto bb (cloudBounds (allPts sd)) c))))"

section \<open>Inputs and notions the properties are stated with\<close>

text \<open>An arc given as integer delta pairs.\<close>

definition ofDeltas :: "(int \<times> int) list \<Rightarrow> xy list" where
  "ofDeltas ds = map (\<lambda>d. (Num (of_int (fst d)), Num (of_int (snd d)))) ds"


text \<open>The value of a finite number.\<close>

fun numVal :: "jsnum \<Rightarrow> real" where
  "numVal (Num a) = a"
| "numVal _ = 0"

definition cloudXs :: "statePoint list \<Rightarrow> real set" where
  "cloudXs pts = (\<lambda>p. numVal (pointX p)) ` set pts"

definition cloudYs :: "statePoint list \<Rightarrow> real set" where
  "cloudYs pts = (\<lambda>p. numVal (pointY p)) ` set pts"

text \<open>
  The first entry of a list whose key no other entry exceeds: what \<open>candidates[0]\<close> is
  after the stable sort by descending key.
\<close>

fun firstHighest :: "('a \<Rightarrow> jsnum) \<Rightarrow> 'a list \<Rightarrow> 'a option" where
  "firstHighest key [] = None"
| "firstHighest key (a # as) =
     (case firstHighest key as of
        None \<Rightarrow> Some a
      | Some m \<Rightarrow> if js_lt (key a) (key m) then Some m else Some a)"

text \<open>
  The response of the reverse geocoder for Canal Winchester, Ohio, as the tests of
  \<open>extractLocationLabel\<close> hold it (\<open>canalWinchesterFixture\<close>).
\<close>

definition canalWinchesterFixture :: BigDataCloudResponse where
  "canalWinchesterFixture =
     \<lparr>city = Some ''Township of Madison'',
      locality = Some ''Canal Winchester'',
      principalSubdivision = Some ''Ohio'',
      principalSubdivisionCode = Some ''US-OH'',
      localityInfo = Some
        \<lparr>administrative = Some
           [\<lparr>name = ''United States of America (the)'', order = Some (Num 2),
              adminLevel = Some (Num 2), description = None\<rparr>,
            \<lparr>name = ''Ohio'', order = Some (Num 6), adminLevel = Some (Num 4), description = None\<rparr>,
            \<lparr>name = ''Fairfield County'', order = Some (Num 7), adminLevel = Some (Num 6),
              description = None\<rparr>,
            \<lparr>name = ''Township of Madison'', order = Some (Num 8), adminLevel = Some (Num 7),
              description = None\<rparr>,
            \<lparr>name = ''Township of Violet'', order = Some (Num 10), adminLevel = Some (Num 7),
              description = None\<rparr>,
            \<lparr>name = ''Canal Winchester'', order = Some (Num 12), adminLevel = Some (Num 8),
              description = None\<rparr>],
         informative = Some
           [\<lparr>name = ''North America'', order = Some (Num 1), adminLevel = None, description = None\<rparr>,
            \<lparr>name = ''contiguous United States'', order = Some (Num 3), adminLevel = None,
              description = None\<rparr>,
            \<lparr>name = ''Central Lowlands'', order = Some (Num 4), adminLevel = None,
              description = None\<rparr>,
            \<lparr>name = ''America/New_York'', order = Some (Num 5), adminLevel = None,
              description = Some ''time zone''\<rparr>,
            \<lparr>name = ''43110'', order = Some (Num 9), adminLevel = None,
              description = Some ''postal code''\<rparr>,
            \<lparr>name = ''39-045-80206'', order = Some (Num 11), adminLevel = None,
              description = Some ''FIPS code''\<rparr>]\<rparr>\<rparr>"

text \<open>The example of the resolver's description: a township as locality, one informative entry.\<close>

definition townshipExample :: BigDataCloudResponse where
  "townshipExample =
     \<lparr>city = None,
      locality = Some ''Township of Madison'',
      principalSubdivision = None,
      principalSubdivisionCode = None,
      localityInfo = Some
        \<lparr>administrative = None,
         informative = Some
           [\<lparr>name = ''Canal Winchester'', order = Some (Num 5), adminLevel = None,
              description = None\<rparr>]\<rparr>\<rparr>"

text \<open>
  A state outline and a state's data for the alignment scenario: the rectangle from
  \<open>(0, 0)\<close> to \<open>(100, 50)\<close> as one arc of deltas, a region without rings, and a cloud
  with corners \<open>(0, 0)\<close> and \<open>(10, 10)\<close> around the point \<open>(5, 5)\<close>.
\<close>

definition rectangleTopology :: topology where
  "rectangleTopology =
     \<lparr>transform = None,
      arcs = [ofDeltas [(0, 0), (100, 0), (0, 50), (- 100, 0), (0, - 50)]],
      geometries = [Polygon ''39'' [[0]], Polygon ''00'' []]\<rparr>"

definition squareCloud :: stateData where
  "squareCloud =
     \<lparr>cities = Some [\<lparr>pointName = ''Centre'', pointX = Num 5, pointY = Num 5\<rparr>],
      districts = Some [\<lparr>pointName = ''South West'', pointX = Num 0, pointY = Num 0\<rparr>],
      schools = Some [\<lparr>pointName = ''North East'', pointX = Num 10, pointY = Num 10\<rparr>]\<rparr>"

text \<open>A cloud of zero width: two points above each other.\<close>

definition verticalCloud :: stateData where
  "verticalCloud =
     \<lparr>cities = Some [\<lparr>pointName = ''Lower'', pointX = Num 0, pointY = Num 0\<rparr>,
                     \<lparr>pointName = ''Upper'', pointX = Num 0, pointY = Num 10\<rparr>],
      districts = None,
      schools = None\<rparr>"

text \<open>
  A response whose city and locality are both townships, with one administrative entry
  (from the tests of \<open>extractLocationLabel\<close>).
\<close>

definition townshipsResponse :: BigDataCloudResponse where
  "townshipsResponse =
     \<lparr>city = Some ''Township of Madison'',
      locality = Some ''Township of Violet'',
      principalSubdivision = Some ''Ohio'',
      principalSubdivisionCode = None,
      localityInfo = Some
        \<lparr>administrative = Some
           [\<lparr>name = ''Canal Winchester'', order = Some (Num 12), adminLevel = Some (Num 8),
              description = None\<rparr>],
         informative = None\<rparr>\<rparr>"

text \<open>A state's data whose only point has no coordinates.\<close>

definition placeless :: stateData where
  "placeless =
     \<lparr>cities = Some [\<lparr>pointName = ''Nowhere'', pointX = NaN, pointY = NaN\<rparr>],
      districts = Some [],
      schools = None\<rparr>"

text \<open>
  The conditions of the resolver's steps, on the fields of the response: a field that is
  set, not blank after \<open>trim\<close> and not an administrative name; a field that is set and
  not blank; the trimmed field; the two lists of entries.
\<close>

definition usablePlace :: "string option \<Rightarrow> bool" where
  "usablePlace v =
     (case v of None \<Rightarrow> False | Some s \<Rightarrow> trim s \<noteq> [] \<and> \<not> ADMIN_PATTERN (trim s))"

definition nonBlank :: "string option \<Rightarrow> bool" where
  "nonBlank v = (case v of None \<Rightarrow> False | Some s \<Rightarrow> trim s \<noteq> [])"

definition trimmed :: "string option \<Rightarrow> string" where
  "trimmed v = (case v of None \<Rightarrow> [] | Some s \<Rightarrow> trim s)"

definition administrativeEntries :: "BigDataCloudResponse \<Rightarrow> localityEntry list" where
  "administrativeEntries geo =
     (case localityInfo geo of None \<Rightarrow> [] | Some li \<Rightarrow> orEmpty (administrative li))"

definition informativeEntries :: "BigDataCloudResponse \<Rightarrow> localityEntry list" where
  "informativeEntries geo =
     (case localityInfo geo of None \<Rightarrow> [] | Some li \<Rightarrow> orEmpty (informative li))"

section \<open>Properties of proficiencyToFraction\<close>

lemma fractionStep_Num:
  assumes "d \<noteq> 0"
  shows "fractionStep (Num b) (bn, bd, be) (Num (of_int d)) =
     (let n = Num (of_int (candidateNum b d)); e = Num (candidateError b d)
      in if js_lt e be \<or> (js_eq e be \<and> js_lt bd (Num (of_int d)))
         then (n, Num (of_int d), e) else (bn, bd, be))"
  using assms
  by (simp add: fractionStep_def candidateNum_def candidateError_def round_def js_sub_def
      js_gt_def Let_def)

lemma foldl_fractionStep:
  "foldl (fractionStep (Num b)) (Num 0, Num 10, PosInf) [Num 4, Num 5, Num 10] =
     (Num (of_int (candidateNum b (chosenDen b))), Num (of_int (chosenDen b)),
      Num (candidateError b (chosenDen b)))"
  using fractionStep_Num[of 4 b, simplified] fractionStep_Num[of 5 b, simplified]
    fractionStep_Num[of 10 b, simplified]
  by (auto simp add: chosenDen_def Let_def)

lemma chosenDen_cases: "chosenDen b = 4 \<or> chosenDen b = 5 \<or> chosenDen b = 10"
  by (simp add: chosenDen_def)

lemma proficiencyToFraction_Num:
  "proficiencyToFraction (Num p) =
     \<lparr>numerator = Num (of_int (clampNum (candidateNum (1 - p) (chosenDen (1 - p))) (chosenDen (1 - p)))),
      denominator = Num (of_int (chosenDen (1 - p)))\<rparr>"
  using chosenDen_cases[of "1 - p"]
  by (auto simp add: proficiencyToFraction_def js_sub_def foldl_fractionStep[simplified]
      js_le_def js_ge_def clampNum_def Let_def)





lemma clampNum_range: "d \<in> {4, 5, 10} \<Longrightarrow> 1 \<le> clampNum n d \<and> clampNum n d \<le> d - 1"
  by (auto simp add: clampNum_def)




lemma proficiencyToFraction_examples:
  "proficiencyToFraction (Num (615 / 1000)) = \<lparr>numerator = Num 4, denominator = Num 10\<rparr>"
  "proficiencyToFraction (Num (1 / 2)) = \<lparr>numerator = Num 5, denominator = Num 10\<rparr>"
  "proficiencyToFraction (Num 0) = \<lparr>numerator = Num 9, denominator = Num 10\<rparr>"
  "proficiencyToFraction (Num 1) = \<lparr>numerator = Num 1, denominator = Num 10\<rparr>"
  by (simp_all add: proficiencyToFraction_def fractionStep_def js_sub_def js_gt_def js_le_def
      js_ge_def Let_def)



text \<open>
  C7. For every proficiency in \<open>[0, 1]\<close> the fraction returned has a denominator among
  4, 5 and 10 and a numerator between 1 and the denominator minus 1; proficiency 0 gives
  a numerator equal to the denominator minus 1, and proficiency 1 gives numerator 1.
\<close>

theorem proficiencyToFraction_invariant:
  assumes "0 \<le> p" and "p \<le> 1"
  shows "(\<exists>n d. proficiencyToFraction (Num p) =
             \<lparr>numerator = Num (of_int n), denominator = Num (of_int d)\<rparr> \<and>
           d \<in> {4, 5, 10} \<and> 1 \<le> n \<and> n \<le> d - 1) \<and>
         (\<exists>d. proficiencyToFraction (Num 0) =
             \<lparr>numerator = Num (of_int (d - 1)), denominator = Num (of_int d)\<rparr>) \<and>
         numerator (proficiencyToFraction (Num 1)) = Num 1"
proof -
  let ?d = "chosenDen (1 - p)"
  let ?n = "clampNum (candidateNum (1 - p) ?d) ?d"
  have d: "?d \<in> {4, 5, 10}" using chosenDen_cases[of "1 - p"] by auto
  have "proficiencyToFraction (Num p) =
          \<lparr>numerator = Num (of_int ?n), denominator = Num (of_int ?d)\<rparr> \<and>
        ?d \<in> {4, 5, 10} \<and> 1 \<le> ?n \<and> ?n \<le> ?d - 1"
    using d clampNum_range[OF d] proficiencyToFraction_Num[of p] by simp
  then have first: "\<exists>n d. proficiencyToFraction (Num p) =
             \<lparr>numerator = Num (of_int n), denominator = Num (of_int d)\<rparr> \<and>
           d \<in> {4, 5, 10} \<and> 1 \<le> n \<and> n \<le> d - 1"
    by blast
  have "proficiencyToFraction (Num 0) =
          \<lparr>numerator = Num (of_int (10 - 1)), denominator = Num (of_int 10)\<rparr>"
    using proficiencyToFraction_examples(3) by simp
  then have zero: "\<exists>d. proficiencyToFraction (Num 0) =
             \<lparr>numerator = Num (of_int (d - 1)), denominator = Num (of_int d)\<rparr>"
    by blast
  have one: "numerator (proficiencyToFraction (Num 1)) = Num 1"
    using proficiencyToFraction_examples(4) by simp
  from first zero one show ?thesis by blast
qed

theorem proficiencyToFraction_invariant_witness:
  "(0::real) \<le> 99 / 100 \<and> (99 / 100 :: real) \<le> 1 \<and>
   proficiencyToFraction (Num (99 / 100)) = \<lparr>numerator = Num 1, denominator = Num 10\<rparr> \<and>
   (\<exists>n d. proficiencyToFraction (Num (99 / 100)) =
             \<lparr>numerator = Num (of_int n), denominator = Num (of_int d)\<rparr> \<and>
           d \<in> {4, 5, 10} \<and> 1 \<le> n \<and> n \<le> d - 1)"
proof -
  have a: "(0::real) \<le> 99 / 100" and b: "(99 / 100 :: real) \<le> 1" by simp_all
  have "proficiencyToFraction (Num (99 / 100)) = \<lparr>numerator = Num 1, denominator = Num 10\<rparr>"
    by (simp add: proficiencyToFraction_def fractionStep_def js_sub_def js_gt_def js_le_def
        js_ge_def Let_def)
  then show ?thesis
    using a b proficiencyToFraction_invariant[OF a b] by blast
qed



section \<open>Properties of the arc decoding\<close>

lemma decodeArc_length: "length (decodeArc sc tr ax ay ps) = length ps"
  by (induction ps arbitrary: ax ay) (simp_all add: Let_def)

lemma decodeArc_nth:
  "k < length ds \<Longrightarrow>
   decodeArc (Num sx, Num sy) (Num tx, Num ty) (Num ax) (Num ay) (ofDeltas ds) ! k =
     (Num ((ax + of_int (sum_list (map fst (take (Suc k) ds)))) * sx + tx),
      Num ((ay + of_int (sum_list (map snd (take (Suc k) ds)))) * sy + ty))"
proof (induction ds arbitrary: ax ay k)
  case Nil
  then show ?case by simp
next
  case (Cons d ds)
  show ?case
  proof (cases k)
    case 0
    then show ?thesis by (simp add: ofDeltas_def Let_def)
  next
    case (Suc j)
    with Cons.prems have "j < length ds" by simp
    from Cons.IH[OF this, of "ax + of_int (fst d)" "ay + of_int (snd d)"] Suc
    show ?thesis by (simp add: ofDeltas_def Let_def add.assoc)
  qed
qed

text \<open>
  C8. For a topology whose arcs are integer delta pairs, with scale \<open>[sx, sy]\<close> and
  translate \<open>[tx, ty]\<close> (1, 1, 0, 0 without a transform), the decoding has as many
  arcs as the topology, each decoded arc is as long as its input, and its \<open>k\<close>-th point
  is the sum of the first \<open>k + 1\<close> deltas, times the scale, plus the translation.
\<close>

theorem decodeArcs_prefix_sums:
  assumes "arcs topo = map ofDeltas das"
    and "(transform topo = None \<and> sx = 1 \<and> sy = 1 \<and> tx = 0 \<and> ty = 0) \<or>
         transform topo = Some \<lparr>scale = (Num sx, Num sy), translate = (Num tx, Num ty)\<rparr>"
    and "a < length das"
  shows "length (decodeArcs topo) = length das \<and>
         length (decodeArcs topo ! a) = length (das ! a) \<and>
         (\<forall>k < length (das ! a).
            decodeArcs topo ! a ! k =
              (Num (of_int (sum_list (map fst (take (Suc k) (das ! a)))) * sx + tx),
               Num (of_int (sum_list (map snd (take (Suc k) (das ! a)))) * sy + ty)))"
proof -
  have eq: "decodeArcs topo =
      map (decodeArc (Num sx, Num sy) (Num tx, Num ty) (Num 0) (Num 0)) (map ofDeltas das)"
    using assms(1,2) by (auto simp add: decodeArcs_def)
  have len: "length (ofDeltas (das ! a)) = length (das ! a)" by (simp add: ofDeltas_def)
  show ?thesis
    using assms(3) decodeArc_nth[of _ "das ! a" sx sy tx ty 0 0]
    by (simp add: eq decodeArc_length len)
qed

theorem decodeArcs_prefix_sums_witness:
  "decodeArcs \<lparr>transform = Some \<lparr>scale = (Num 2, Num 3), translate = (Num 10, Num 20)\<rparr>,
               arcs = map ofDeltas [[(1, 1), (2, - 1), (3, 0)]], geometries = []\<rparr> ! 0 ! 2 =
     (Num 22, Num 20) \<and>
   length (decodeArcs \<lparr>transform = Some \<lparr>scale = (Num 2, Num 3), translate = (Num 10, Num 20)\<rparr>,
               arcs = map ofDeltas [[(1, 1), (2, - 1), (3, 0)]], geometries = []\<rparr> ! 0) = 3"
proof -
  let ?topo = "\<lparr>transform = Some \<lparr>scale = (Num 2, Num 3), translate = (Num 10, Num 20)\<rparr>,
               arcs = map ofDeltas [[(1, 1), (2, - 1), (3, 0)]], geometries = []\<rparr>"
  have a: "arcs ?topo = map ofDeltas [[(1, 1), (2, - 1), (3, 0)]]" by simp
  have b: "(transform ?topo = None \<and> (2::real) = 1 \<and> (3::real) = 1 \<and> (10::real) = 0 \<and> (20::real) = 0) \<or>
           transform ?topo = Some \<lparr>scale = (Num 2, Num 3), translate = (Num 10, Num 20)\<rparr>"
    by simp
  have c: "(0::nat) < length [[(1, 1), (2, - 1), (3::int, 0::int)]]" by simp
  from decodeArcs_prefix_sums[OF a b c] show ?thesis by simp
qed

section \<open>Properties of getStateBBoxFromTopology\<close>



lemma rectangle_bbox:
  "getStateBBoxFromTopology rectangleTopology ''39'' =
     Inr \<lparr>bb_x0 = Num 0, bb_y0 = Num 0, bb_x1 = Num 100, bb_y1 = Num 50,
          bb_w = Num 100, bb_h = Num 50\<rparr>"
  by (simp add: getStateBBoxFromTopology_def rectangleTopology_def polysOf_def js_sub_def Let_def
      decodeArcs_def ofDeltas_def ring_def arcAt_def extendBounds_def js_gt_def)




section \<open>Properties of getExpectedAlignedCityPoint\<close>

lemma isFinite_iff: "isFinite a \<longleftrightarrow> (\<exists>r. a = Num r)"
  by (cases a) simp_all

lemma foldl_bounds_finite:
  assumes "\<forall>p \<in> set pts. isFinite (pointX p) \<and> isFinite (pointY p)"
  shows "foldl (\<lambda>acc p. extendBounds acc (pointX p, pointY p)) (Num a0, Num b0, Num a1, Num b1) pts =
         (Num (Min (insert a0 (cloudXs pts))), Num (Min (insert b0 (cloudYs pts))),
          Num (Max (insert a1 (cloudXs pts))), Num (Max (insert b1 (cloudYs pts))))"
  using assms
proof (induction pts arbitrary: a0 b0 a1 b1)
  case Nil
  then show ?case by (simp add: cloudXs_def cloudYs_def)
next
  case (Cons p pts)
  from Cons.prems obtain u v where p: "pointX p = Num u" "pointY p = Num v"
    by (auto simp add: isFinite_iff)
  have rest: "\<forall>p \<in> set pts. isFinite (pointX p) \<and> isFinite (pointY p)"
    using Cons.prems by simp
  have fin: "finite (cloudXs pts)" "finite (cloudYs pts)"
    by (simp_all add: cloudXs_def cloudYs_def)
  have step: "extendBounds (Num a0, Num b0, Num a1, Num b1) (pointX p, pointY p) =
      (Num (min u a0), Num (min v b0), Num (max u a1), Num (max v b1))"
    by (auto simp add: extendBounds_def p js_gt_def min_def max_def)
  have xs: "cloudXs (p # pts) = insert u (cloudXs pts)" "cloudYs (p # pts) = insert v (cloudYs pts)"
    by (simp_all add: cloudXs_def cloudYs_def p)
  have m1: "Min (insert (min u a0) (cloudXs pts)) = Min (insert a0 (insert u (cloudXs pts)))"
    using fin(1) by (cases "cloudXs pts = {}") (auto simp add: min.commute min.left_commute)
  have m2: "Min (insert (min v b0) (cloudYs pts)) = Min (insert b0 (insert v (cloudYs pts)))"
    using fin(2) by (cases "cloudYs pts = {}") (auto simp add: min.commute min.left_commute)
  have m3: "Max (insert (max u a1) (cloudXs pts)) = Max (insert a1 (insert u (cloudXs pts)))"
    using fin(1) by (cases "cloudXs pts = {}") (auto simp add: max.commute max.left_commute)
  have m4: "Max (insert (max v b1) (cloudYs pts)) = Max (insert b1 (insert v (cloudYs pts)))"
    using fin(2) by (cases "cloudYs pts = {}") (auto simp add: max.commute max.left_commute)
  show ?case
    using Cons.IH[OF rest, of "min u a0" "min v b0" "max u a1" "max v b1"]
    by (simp add: step xs m1 m2 m3 m4)
qed

lemma cloudBounds_finite:
  assumes "pts \<noteq> []" and "\<forall>p \<in> set pts. isFinite (pointX p) \<and> isFinite (pointY p)"
  shows "cloudBounds pts =
         (Num (Min (cloudXs pts)), Num (Min (cloudYs pts)),
          Num (Max (cloudXs pts)), Num (Max (cloudYs pts)))"
proof -
  from assms(1) obtain p ps where pts: "pts = p # ps" by (cases pts) auto
  from assms(2) pts obtain u v where p: "pointX p = Num u" "pointY p = Num v"
    by (auto simp add: isFinite_iff)
  have rest: "\<forall>p \<in> set ps. isFinite (pointX p) \<and> isFinite (pointY p)"
    using assms(2) pts by simp
  have first: "extendBounds (PosInf, PosInf, NegInf, NegInf) (pointX p, pointY p) =
      (Num u, Num v, Num u, Num v)"
    by (simp add: extendBounds_def p js_gt_def)
  have xs: "cloudXs (p # ps) = insert u (cloudXs ps)" "cloudYs (p # ps) = insert v (cloudYs ps)"
    by (simp_all add: cloudXs_def cloudYs_def p)
  show ?thesis
    using foldl_bounds_finite[OF rest, of u v u v]
    by (simp add: cloudBounds_def pts first xs)
qed

lemma alignInto_finite:
  assumes "bb_x0 bb = Num X0" "bb_y0 bb = Num Y0" "bb_w bb = Num W" "bb_h bb = Num H"
    and "pointX c = Num cx" "pointY c = Num cy"
    and "dx0 < dx1" "dy0 < dy1"
  shows "alignInto bb (Num dx0, Num dy0, Num dx1, Num dy1) c =
     (let dw = dx1 - dx0; dh = dy1 - dy0; pad = 4 / 100;
          availW = W * (1 - 2 * pad); availH = H * (1 - 2 * pad);
          alignScale = min (availW / dw) (availH / dh);
          ox = X0 + W * pad + (availW - dw * alignScale) / 2;
          oy = Y0 + H * pad + (availH - dh * alignScale) / 2
      in \<lparr>alignedX = Num (ox + (cx - dx0) * alignScale),
          alignedY = Num (oy + (cy - dy0) * alignScale)\<rparr>)"
  using assms
  by (simp add: alignInto_def js_sub_def Let_def min_def)

lemma find_in_set: "find P xs = Some a \<Longrightarrow> a \<in> set xs"
  by (induction xs) (auto split: if_splits)

lemma city_in_cloud:
  assumes "cities sd = Some cs" and "c \<in> set cs" and "isFinite (pointX c)" and "isFinite (pointY c)"
  shows "c \<in> set (allPts sd)"
  using assms by (simp add: allPts_def orEmpty_def)

lemma allPts_finite: "\<forall>p \<in> set (allPts sd). isFinite (pointX p) \<and> isFinite (pointY p)"
  by (auto simp add: allPts_def)

lemma square_centre:
  "getExpectedAlignedCityPoint rectangleTopology squareCloud ''OH'' ''39'' ''centre'' =
     Inr \<lparr>alignedX = Num 50, alignedY = Num 25\<rparr>"
  by (simp add: getExpectedAlignedCityPoint_def rectangle_bbox squareCloud_def allPts_def
      orEmpty_def toLowerCase_def toLowerChar_def char_of_def bit_Suc_0_iff cloudBounds_def
      extendBounds_def js_gt_def alignInto_def js_sub_def Let_def)

lemma squareCloud_pts:
  "cities squareCloud = Some [\<lparr>pointName = ''Centre'', pointX = Num 5, pointY = Num 5\<rparr>]"
  "cloudXs (allPts squareCloud) = {5, 0, 10}"
  "cloudYs (allPts squareCloud) = {5, 0, 10}"
  by (simp_all add: squareCloud_def allPts_def orEmpty_def cloudXs_def cloudYs_def)

text \<open>
  C3. When the state's frame and the city's coordinates are finite and the cloud has
  positive width and height, \<open>getExpectedAlignedCityPoint\<close> returns
  \<open>(ox + (x - dx0) * scale, oy + (y - dy0) * scale)\<close> with
  \<open>scale = min (availW / dw) (availH / dh)\<close>, \<open>availW = w * (1 - 2 * pad)\<close>,
  \<open>ox = x0 + w * pad + (availW - dw * scale) / 2\<close>, the same for \<open>oy\<close>, and
  \<open>pad = 0.04\<close>, where \<open>dx0\<close>, \<open>dy0\<close>, \<open>dw\<close>, \<open>dh\<close> are the least coordinates and
  the extents of the cloud's finite points. For the frame from \<open>(0, 0)\<close> of width 100
  and height 50 and a cloud from \<open>(0, 0)\<close> to \<open>(10, 10)\<close>, the point \<open>(5, 5)\<close> goes to
  \<open>(50, 25)\<close>.
\<close>

theorem aligned_point_formula:
  assumes bbox: "getStateBBoxFromTopology topo fips = Inr bb"
    and frame: "bb_x0 bb = Num X0" "bb_y0 bb = Num Y0" "bb_w bb = Num W" "bb_h bb = Num H"
    and cs: "cities sd = Some cs"
    and found: "find (\<lambda>c. toLowerCase (pointName c) = toLowerCase cityName) cs = Some c"
    and cxy: "pointX c = Num cx" "pointY c = Num cy"
    and wide: "Min (cloudXs (allPts sd)) < Max (cloudXs (allPts sd))"
    and high: "Min (cloudYs (allPts sd)) < Max (cloudYs (allPts sd))"
  shows "getExpectedAlignedCityPoint topo sd stateCode fips cityName =
     Inr (let dx0 = Min (cloudXs (allPts sd)); dy0 = Min (cloudYs (allPts sd));
              dw = Max (cloudXs (allPts sd)) - dx0; dh = Max (cloudYs (allPts sd)) - dy0;
              pad = 4 / 100;
              availW = W * (1 - 2 * pad); availH = H * (1 - 2 * pad);
              alignScale = min (availW / dw) (availH / dh);
              ox = X0 + W * pad + (availW - dw * alignScale) / 2;
              oy = Y0 + H * pad + (availH - dh * alignScale) / 2
          in \<lparr>alignedX = Num (ox + (cx - dx0) * alignScale),
              alignedY = Num (oy + (cy - dy0) * alignScale)\<rparr>) \<and>
   getExpectedAlignedCityPoint rectangleTopology squareCloud ''OH'' ''39'' ''centre'' =
     Inr \<lparr>alignedX = Num 50, alignedY = Num 25\<rparr>"
proof -
  have "c \<in> set (allPts sd)"
    using city_in_cloud[OF cs find_in_set[OF found]] cxy by simp
  then have ne: "allPts sd \<noteq> []" by auto
  have bounds: "cloudBounds (allPts sd) =
      (Num (Min (cloudXs (allPts sd))), Num (Min (cloudYs (allPts sd))),
       Num (Max (cloudXs (allPts sd))), Num (Max (cloudYs (allPts sd))))"
    using cloudBounds_finite[OF ne allPts_finite] .
  have "getExpectedAlignedCityPoint topo sd stateCode fips cityName =
      Inr (alignInto bb (cloudBounds (allPts sd)) c)"
    using cs found ne bbox by (simp add: getExpectedAlignedCityPoint_def)
  then show ?thesis
    using alignInto_finite[OF frame cxy wide high] square_centre
    by (simp add: bounds Let_def)
qed

theorem aligned_point_formula_witness:
  "getStateBBoxFromTopology rectangleTopology ''39'' =
     Inr \<lparr>bb_x0 = Num 0, bb_y0 = Num 0, bb_x1 = Num 100, bb_y1 = Num 50,
          bb_w = Num 100, bb_h = Num 50\<rparr> \<and>
   Min (cloudXs (allPts squareCloud)) = 0 \<and> Max (cloudXs (allPts squareCloud)) = 10 \<and>
   Min (cloudYs (allPts squareCloud)) = 0 \<and> Max (cloudYs (allPts squareCloud)) = 10 \<and>
   getExpectedAlignedCityPoint rectangleTopology squareCloud ''ZZ'' ''39'' ''CENTRE'' =
     Inr \<lparr>alignedX = Num 50, alignedY = Num 25\<rparr>"
proof -
  let ?bb = "\<lparr>bb_x0 = Num 0, bb_y0 = Num 0, bb_x1 = Num 100, bb_y1 = Num 50,
              bb_w = Num 100, bb_h = Num 50\<rparr>"
  let ?c = "\<lparr>pointName = ''Centre'', pointX = Num 5, pointY = Num 5\<rparr>"
  have frame: "bb_x0 ?bb = Num 0" "bb_y0 ?bb = Num 0" "bb_w ?bb = Num 100" "bb_h ?bb = Num 50"
    by simp_all
  have found: "find (\<lambda>c. toLowerCase (pointName c) = toLowerCase ''CENTRE'') [?c] = Some ?c"
    by (simp add: toLowerCase_def toLowerChar_def char_of_def bit_Suc_0_iff)
  have cxy: "pointX ?c = Num 5" "pointY ?c = Num 5" by simp_all
  have wide: "Min (cloudXs (allPts squareCloud)) < Max (cloudXs (allPts squareCloud))"
    and high: "Min (cloudYs (allPts squareCloud)) < Max (cloudYs (allPts squareCloud))"
    by (simp_all add: squareCloud_pts)
  from aligned_point_formula[OF rectangle_bbox frame squareCloud_pts(1) found cxy wide high,
      of "''ZZ''"]
  show ?thesis
    by (simp add: rectangle_bbox squareCloud_pts Let_def)
qed



text \<open>
  C5, as the code has it. \<open>getExpectedAlignedCityPoint\<close> fails whenever the cloud,
  without its points of non-finite \<open>x\<close> or \<open>y\<close>, is empty: with the error for no
  points, or before that with the error for the missing city (or for a missing list of
  cities). When the city is found, the cloud is not empty and the state's bounding box
  is computed, it returns a point, whatever the width and the height of the cloud.
\<close>

theorem aligner_failures:
  "(allPts sd = [] \<longrightarrow>
      getExpectedAlignedCityPoint topo sd stateCode fips cityName
        \<in> {Inl TypeError, Inl (MissingCity cityName), Inl NoPoints}) \<and>
   (cities sd = Some cs \<and>
    find (\<lambda>c. toLowerCase (pointName c) = toLowerCase cityName) cs = Some c \<and>
    allPts sd \<noteq> [] \<and> getStateBBoxFromTopology topo fips = Inr bb \<longrightarrow>
      getExpectedAlignedCityPoint topo sd stateCode fips cityName =
        Inr (alignInto bb (cloudBounds (allPts sd)) c))"
  by (auto simp add: getExpectedAlignedCityPoint_def split: option.splits sum.splits)

lemma verticalCloud_facts:
  "cities verticalCloud = Some [\<lparr>pointName = ''Lower'', pointX = Num 0, pointY = Num 0\<rparr>,
                               \<lparr>pointName = ''Upper'', pointX = Num 0, pointY = Num 10\<rparr>]"
  "allPts verticalCloud = [\<lparr>pointName = ''Lower'', pointX = Num 0, pointY = Num 0\<rparr>,
                          \<lparr>pointName = ''Upper'', pointX = Num 0, pointY = Num 10\<rparr>]"
  "cloudBounds (allPts verticalCloud) = (Num 0, Num 0, Num 0, Num 10)"
  by (simp_all add: verticalCloud_def allPts_def orEmpty_def cloudBounds_def extendBounds_def
      js_gt_def)

theorem aligner_failures_witness:
  "allPts placeless = [] \<and>
   getExpectedAlignedCityPoint rectangleTopology placeless ''OH'' ''39'' ''nowhere'' = Inl NoPoints \<and>
   allPts verticalCloud \<noteq> [] \<and>
   getExpectedAlignedCityPoint rectangleTopology verticalCloud ''OH'' ''39'' ''upper'' =
     Inr \<lparr>alignedX = Num 50, alignedY = Num 48\<rparr>"
proof -
  let ?bb = "\<lparr>bb_x0 = Num 0, bb_y0 = Num 0, bb_x1 = Num 100, bb_y1 = Num 50,
              bb_w = Num 100, bb_h = Num 50\<rparr>"
  let ?u = "\<lparr>pointName = ''Upper'', pointX = Num 0, pointY = Num 10\<rparr>"
  have empty: "allPts placeless = []"
    by (simp add: placeless_def allPts_def orEmpty_def)
  have direct: "getExpectedAlignedCityPoint rectangleTopology placeless ''OH'' ''39'' ''nowhere'' =
      Inl NoPoints"
    by (simp add: getExpectedAlignedCityPoint_def placeless_def allPts_def orEmpty_def
        toLowerCase_def toLowerChar_def char_of_def bit_Suc_0_iff)
  have found: "find (\<lambda>c. toLowerCase (pointName c) = toLowerCase ''upper'')
      [\<lparr>pointName = ''Lower'', pointX = Num 0, pointY = Num 0\<rparr>, ?u] = Some ?u"
    by (simp add: toLowerCase_def toLowerChar_def char_of_def bit_Suc_0_iff)
  have ne: "allPts verticalCloud \<noteq> []" by (simp add: verticalCloud_facts(2))
  have al: "alignInto ?bb (Num 0, Num 0, Num 0, Num 10) ?u = \<lparr>alignedX = Num 50, alignedY = Num 48\<rparr>"
    by (simp add: alignInto_def js_sub_def Let_def)
  have "allPts placeless = [] \<longrightarrow>
      getExpectedAlignedCityPoint rectangleTopology placeless ''OH'' ''39'' ''nowhere''
        \<in> {Inl TypeError, Inl (MissingCity ''nowhere''), Inl NoPoints}"
    using aligner_failures[where sd = placeless and topo = rectangleTopology and fips = "''39''"
        and stateCode = "''OH''" and cityName = "''nowhere''"]
    by (rule conjunct1)
  with empty direct
  have "getExpectedAlignedCityPoint rectangleTopology placeless ''OH'' ''39'' ''nowhere'' = Inl NoPoints"
    by blast
  moreover have "cities verticalCloud =
        Some [\<lparr>pointName = ''Lower'', pointX = Num 0, pointY = Num 0\<rparr>, ?u] \<and>
      find (\<lambda>c. toLowerCase (pointName c) = toLowerCase ''upper'')
        [\<lparr>pointName = ''Lower'', pointX = Num 0, pointY = Num 0\<rparr>, ?u] = Some ?u \<and>
      allPts verticalCloud \<noteq> [] \<and> getStateBBoxFromTopology rectangleTopology ''39'' = Inr ?bb \<longrightarrow>
      getExpectedAlignedCityPoint rectangleTopology verticalCloud ''OH'' ''39'' ''upper'' =
        Inr (alignInto ?bb (cloudBounds (allPts verticalCloud)) ?u)"
    using aligner_failures[where sd = verticalCloud and topo = rectangleTopology
        and fips = "''39''" and stateCode = "''OH''" and cityName = "''upper''" and c = ?u
        and bb = ?bb
        and cs = "[\<lparr>pointName = ''Lower'', pointX = Num 0, pointY = Num 0\<rparr>, ?u]"]
    by (rule conjunct2)
  with verticalCloud_facts(1) found ne rectangle_bbox
  have "getExpectedAlignedCityPoint rectangleTopology verticalCloud ''OH'' ''39'' ''upper'' =
      Inr (alignInto ?bb (cloudBounds (allPts verticalCloud)) ?u)"
    by blast
  ultimately show ?thesis
    using empty ne al by (simp add: verticalCloud_facts(3))
qed

text \<open>
  A cloud of zero width (\<open>dx0 = dx1 = 0\<close>): the call returns the point \<open>(50, 2)\<close>
  and raises nothing.
\<close>

theorem aligner_zero_width_counterexample:
  "cloudBounds (allPts verticalCloud) = (Num 0, Num 0, Num 0, Num 10) \<and>
   getExpectedAlignedCityPoint rectangleTopology verticalCloud ''OH'' ''39'' ''lower'' =
     Inr \<lparr>alignedX = Num 50, alignedY = Num 2\<rparr>"
proof -
  let ?bb = "\<lparr>bb_x0 = Num 0, bb_y0 = Num 0, bb_x1 = Num 100, bb_y1 = Num 50,
              bb_w = Num 100, bb_h = Num 50\<rparr>"
  let ?l = "\<lparr>pointName = ''Lower'', pointX = Num 0, pointY = Num 0\<rparr>"
  have ne: "allPts verticalCloud \<noteq> []" by (simp add: verticalCloud_facts(2))
  have "getExpectedAlignedCityPoint rectangleTopology verticalCloud ''OH'' ''39'' ''lower'' =
      Inr (alignInto ?bb (cloudBounds (allPts verticalCloud)) ?l)"
    by (simp add: getExpectedAlignedCityPoint_def rectangle_bbox verticalCloud_facts(1) ne
        toLowerCase_def toLowerChar_def char_of_def bit_Suc_0_iff)
  moreover have "alignInto ?bb (Num 0, Num 0, Num 0, Num 10) ?l =
      \<lparr>alignedX = Num 50, alignedY = Num 2\<rparr>"
    by (simp add: alignInto_def js_sub_def Let_def)
  ultimately show ?thesis by (simp add: verticalCloud_facts(3))
qed

section \<open>Properties of the sort by descending key\<close>

lemma js_ge_Num_cases: "js_ge a (Num r) \<Longrightarrow> (\<exists>v. a = Num v \<and> r \<le> v) \<or> a = PosInf"
  by (cases a) (auto simp add: js_ge_def js_le_def)

lemma cmp_desc_gt:
  assumes "js_ge a (Num r)" and "js_ge b (Num r)"
  shows "js_gt (js_sub b a) (Num 0) \<longleftrightarrow> js_lt a b"
  using js_ge_Num_cases[OF assms(1)] js_ge_Num_cases[OF assms(2)]
  by (auto simp add: js_gt_def js_sub_def)

lemma js_lt_trans: "js_lt a b \<Longrightarrow> js_lt b c \<Longrightarrow> js_lt a c"
  by (cases a; cases b; cases c) auto

lemma js_lt_total:
  "js_ge a (Num r) \<Longrightarrow> js_ge b (Num r) \<Longrightarrow> js_lt a b \<or> a = b \<or> js_lt b a"
  by (drule js_ge_Num_cases, drule js_ge_Num_cases) auto

lemma js_lt_irrefl: "\<not> js_lt a a"
  by (cases a) auto

lemma sortBy_Cons: "sortBy cmp (a # as) = insertBy cmp a (sortBy cmp as)"
  by (simp add: sortBy_def)

lemma firstHighest_in: "firstHighest k es = Some m \<Longrightarrow> m \<in> set es"
  by (induction es arbitrary: m) (auto split: option.splits if_splits)

lemma firstHighest_None: "firstHighest k es = None \<longleftrightarrow> es = []"
  by (induction es) (auto split: option.splits)

lemma firstHighest_first:
  "firstHighest k es = Some m \<Longrightarrow>
   \<exists>pre post. es = pre @ m # post \<and> (\<forall>e \<in> set pre. js_lt (k e) (k m))"
proof (induction es arbitrary: m)
  case Nil
  then show ?case by simp
next
  case (Cons a es)
  show ?case
  proof (cases "firstHighest k es")
    case None
    with Cons.prems have "m = a" by simp
    then have "a # es = [] @ m # es \<and> (\<forall>e \<in> set []. js_lt (k e) (k m))" by simp
    then show ?thesis by blast
  next
    case (Some b)
    show ?thesis
    proof (cases "js_lt (k a) (k b)")
      case True
      with Some Cons.prems have m: "m = b" by simp
      from Cons.IH[OF Some] obtain pre post
        where es: "es = pre @ b # post" and lt: "\<forall>e \<in> set pre. js_lt (k e) (k b)"
        by blast
      have "a # es = (a # pre) @ m # post \<and> (\<forall>e \<in> set (a # pre). js_lt (k e) (k m))"
        using es lt True m by simp
      then show ?thesis by blast
    next
      case False
      with Some Cons.prems have "m = a" by simp
      then have "a # es = [] @ m # es \<and> (\<forall>e \<in> set []. js_lt (k e) (k m))" by simp
      then show ?thesis by blast
    qed
  qed
qed

lemma hd_sortBy:
  assumes "\<forall>e \<in> set es. js_ge (orZero (key e)) (Num r)"
  shows "(case sortBy (\<lambda>a b. js_sub (orZero (key b)) (orZero (key a))) es of
            [] \<Rightarrow> None | c # _ \<Rightarrow> Some c)
         = firstHighest (\<lambda>e. orZero (key e)) es"
  using assms
proof (induction es)
  case Nil
  then show ?case by (simp add: sortBy_def)
next
  case (Cons a es)
  let ?cmp = "\<lambda>a b. js_sub (orZero (key b)) (orZero (key a))"
  have IH: "(case sortBy ?cmp es of [] \<Rightarrow> None | c # _ \<Rightarrow> Some c) =
      firstHighest (\<lambda>e. orZero (key e)) es"
    using Cons by simp
  show ?case
  proof (cases "sortBy ?cmp es")
    case Nil
    with IH show ?thesis by (simp add: sortBy_Cons)
  next
    case (Cons b bs)
    with IH have fh: "firstHighest (\<lambda>e. orZero (key e)) es = Some b" by simp
    then have "b \<in> set es" by (rule firstHighest_in)
    then have kb: "js_ge (orZero (key b)) (Num r)" using Cons.prems by simp
    have ka: "js_ge (orZero (key a)) (Num r)" using Cons.prems by simp
    show ?thesis
      using cmp_desc_gt[OF ka kb] by (simp add: sortBy_Cons Cons fh)
  qed
qed

lemma firstHighest_max:
  assumes "\<forall>e \<in> set es. js_ge (k e) (Num r)" and "firstHighest k es = Some m"
  shows "\<forall>e \<in> set es. \<not> js_lt (k m) (k e)"
  using assms
proof (induction es arbitrary: m)
  case Nil
  then show ?case by simp
next
  case (Cons a es)
  show ?case
  proof (cases "firstHighest k es")
    case None
    then have "es = []" by (simp add: firstHighest_None)
    with Cons.prems show ?thesis by (simp add: js_lt_irrefl)
  next
    case (Some b)
    have bmax: "\<forall>e \<in> set es. \<not> js_lt (k b) (k e)"
      using Cons.IH[OF _ Some] Cons.prems(1) by simp
    have bin: "b \<in> set es" using Some by (rule firstHighest_in)
    have ka: "js_ge (k a) (Num r)" and kb: "js_ge (k b) (Num r)"
      using Cons.prems(1) bin by simp_all
    show ?thesis
    proof (cases "js_lt (k a) (k b)")
      case True
      with Some Cons.prems(2) have "m = b" by simp
      with bmax True show ?thesis
        using js_lt_trans[of "k b" "k a" "k b"] js_lt_irrefl by auto
    next
      case False
      with Some Cons.prems(2) have m: "m = a" by simp
      have "\<not> js_lt (k a) (k e)" if "e \<in> set es" for e
      proof
        assume lt: "js_lt (k a) (k e)"
        from js_lt_total[OF ka kb] False consider "k a = k b" | "js_lt (k b) (k a)" by auto
        then show False
        proof cases
          case 1
          with lt bmax that show False by simp
        next
          case 2
          from js_lt_trans[OF 2 lt] bmax that show False by simp
        qed
      qed
      then show ?thesis by (simp add: m js_lt_irrefl)
    qed
  qed
qed

lemma firstHighest_filter:
  assumes "\<And>e. P e \<Longrightarrow> js_ge (k e) (Num r)" and "firstHighest k (filter P es) = Some m"
  shows "m \<in> set es \<and> P m \<and> (\<forall>e \<in> set es. P e \<longrightarrow> \<not> js_lt (k m) (k e))"
proof -
  have "m \<in> set (filter P es)" using assms(2) by (rule firstHighest_in)
  moreover have "\<forall>e \<in> set (filter P es). \<not> js_lt (k m) (k e)"
    using firstHighest_max[of "filter P es" k r m] assms by simp
  ultimately show ?thesis by simp
qed

section \<open>Properties of extractLocationLabel\<close>

lemma adminCandidate_level: "adminCandidate e \<Longrightarrow> js_ge (orZero (adminLevel e)) (Num 8)"
  by (auto simp add: adminCandidate_def orZero_def split: option.splits)

lemma informativeCandidate_order: "informativeCandidate e \<Longrightarrow> js_ge (orZero (order e)) (Num 4)"
  by (auto simp add: informativeCandidate_def orZero_def split: option.splits)

lemma administrativeStep_eq:
  "administrativeStep geo =
     map_option name (firstHighest (\<lambda>e. orZero (adminLevel e))
       (filter adminCandidate (administrativeEntries geo)))"
proof -
  have h: "(case sortBy byAdminLevelDesc (filter adminCandidate es) of [] \<Rightarrow> None | c # _ \<Rightarrow> Some c)
      = firstHighest (\<lambda>e. orZero (adminLevel e)) (filter adminCandidate es)" for es
    using hd_sortBy[of "filter adminCandidate es" adminLevel 8] adminCandidate_level
    unfolding byAdminLevelDesc_def by simp
  have h': "(case sortBy byAdminLevelDesc (filter adminCandidate es) of
               [] \<Rightarrow> None | c # _ \<Rightarrow> Some (name c))
      = map_option name (firstHighest (\<lambda>e. orZero (adminLevel e)) (filter adminCandidate es))" for es
    using h[of es, symmetric]
    by (cases "sortBy byAdminLevelDesc (filter adminCandidate es)") simp_all
  show ?thesis
    by (auto simp add: administrativeStep_def administrativeEntries_def orEmpty_def h'
        split: option.splits)
qed

lemma informativeStep_eq:
  "informativeStep geo =
     map_option name (firstHighest (\<lambda>e. orZero (order e))
       (filter informativeCandidate (informativeEntries geo)))"
proof -
  have h: "(case sortBy byOrderDesc (filter informativeCandidate es) of [] \<Rightarrow> None | c # _ \<Rightarrow> Some c)
      = firstHighest (\<lambda>e. orZero (order e)) (filter informativeCandidate es)" for es
    using hd_sortBy[of "filter informativeCandidate es" order 4] informativeCandidate_order
    unfolding byOrderDesc_def by simp
  have h': "(case sortBy byOrderDesc (filter informativeCandidate es) of
               [] \<Rightarrow> None | c # _ \<Rightarrow> Some (name c))
      = map_option name (firstHighest (\<lambda>e. orZero (order e)) (filter informativeCandidate es))" for es
    using h[of es, symmetric]
    by (cases "sortBy byOrderDesc (filter informativeCandidate es)") simp_all
  show ?thesis
    by (auto simp add: informativeStep_def informativeEntries_def orEmpty_def h'
        split: option.splits)
qed

lemma extractLocationLabel_chain:
  "extractLocationLabel geo =
     (if usablePlace (locality geo) then trimmed (locality geo)
      else if usablePlace (city geo) then trimmed (city geo)
      else case firstHighest (\<lambda>e. orZero (adminLevel e))
                  (filter adminCandidate (administrativeEntries geo)) of
             Some m \<Rightarrow> name m
           | None \<Rightarrow>
               if nonBlank (principalSubdivision geo) then trimmed (principalSubdivision geo)
               else [])"
proof -
  have steps:
    "localityStep geo = (if usablePlace (locality geo) then Some (trimmed (locality geo)) else None)"
    "cityStep geo = (if usablePlace (city geo) then Some (trimmed (city geo)) else None)"
    "subdivisionStep geo =
       (if nonBlank (principalSubdivision geo) then Some (trimmed (principalSubdivision geo))
        else None)"
    by (auto simp add: localityStep_def cityStep_def subdivisionStep_def usablePlace_def
        nonBlank_def trimmed_def split: option.splits)
  show ?thesis
    by (simp add: extractLocationLabel_def steps administrativeStep_eq split: option.splits)
qed

lemma townshipExample_label: "extractLocationLabel townshipExample = []"
  by code_simp

lemma fixture_label: "extractLocationLabel canalWinchesterFixture = ''Canal Winchester''"
  by code_simp

text \<open>
  The function that was replaced gives the place of the example, and gives the code of
  the last informative entry for the response of Canal Winchester.
\<close>

lemma informativeFirst_townshipExample:
  "extractLocationLabelInformativeFirst townshipExample = ''Canal Winchester''"
  by code_simp

lemma informativeFirst_fixture:
  "extractLocationLabelInformativeFirst canalWinchesterFixture = ''39-045-80206''"
  by code_simp

lemma trim_Nil: "trim [] = []"
  by (simp add: trim_def)

lemma informativeFirst_chain:
  "extractLocationLabelInformativeFirst geo =
     (case firstHighest (\<lambda>e. orZero (order e))
             (filter informativeCandidate (informativeEntries geo)) of
        Some m \<Rightarrow> name m
      | None \<Rightarrow>
          if nonBlank (city geo) then trimmed (city geo)
          else if usablePlace (locality geo) then trimmed (locality geo)
          else if nonBlank (principalSubdivision geo) then trimmed (principalSubdivision geo)
          else [])"
proof -
  have steps:
    "cityStepUnfiltered geo = (if nonBlank (city geo) then Some (trimmed (city geo)) else None)"
    "localityStepChecked geo =
       (if usablePlace (locality geo) then Some (trimmed (locality geo)) else None)"
    "subdivisionStepChecked geo =
       (if nonBlank (principalSubdivision geo) then Some (trimmed (principalSubdivision geo))
        else None)"
    using trim_Nil
    by (auto simp add: cityStepUnfiltered_def localityStepChecked_def subdivisionStepChecked_def
        usablePlace_def nonBlank_def trimmed_def split: option.splits)
  show ?thesis
    by (simp add: extractLocationLabelInformativeFirst_def steps informativeStep_eq
        split: option.splits)
qed

text \<open>
  C1, as the code has it. For every response, \<open>extractLocationLabel\<close> returns the
  trimmed locality when it is not blank and not an administrative name; otherwise the
  trimmed city under the same conditions; otherwise, among the entries of
  \<open>localityInfo.administrative\<close> with \<open>adminLevel >= 8\<close> and a name that is not
  empty and not administrative, the name of the first entry of highest \<open>adminLevel\<close>
  (no entry above it, every one before it below it); otherwise the trimmed
  \<open>principalSubdivision\<close> when it is not blank; otherwise the empty string. The
  entries of \<open>localityInfo.informative\<close> are not read: for the locality
  \<open>Township of Madison\<close> with the informative entry \<open>Canal Winchester\<close> of order 5
  and nothing else, the result is the empty string.
\<close>

theorem extractLocationLabel_precedence:
  "extractLocationLabel geo =
     (if usablePlace (locality geo) then trimmed (locality geo)
      else if usablePlace (city geo) then trimmed (city geo)
      else case firstHighest (\<lambda>e. orZero (adminLevel e))
                  (filter adminCandidate (administrativeEntries geo)) of
             Some m \<Rightarrow> name m
           | None \<Rightarrow>
               if nonBlank (principalSubdivision geo) then trimmed (principalSubdivision geo)
               else []) \<and>
   (\<forall>m. firstHighest (\<lambda>e. orZero (adminLevel e))
           (filter adminCandidate (administrativeEntries geo)) = Some m \<longrightarrow>
        m \<in> set (administrativeEntries geo) \<and> adminCandidate m \<and>
        (\<forall>e \<in> set (administrativeEntries geo).
           adminCandidate e \<longrightarrow> \<not> js_lt (orZero (adminLevel m)) (orZero (adminLevel e))) \<and>
        (\<exists>pre post.
           filter adminCandidate (administrativeEntries geo) = pre @ m # post \<and>
           (\<forall>e \<in> set pre. js_lt (orZero (adminLevel e)) (orZero (adminLevel m))))) \<and>
   extractLocationLabel townshipExample = []"
proof -
  have "\<forall>m. firstHighest (\<lambda>e. orZero (adminLevel e))
           (filter adminCandidate (administrativeEntries geo)) = Some m \<longrightarrow>
        m \<in> set (administrativeEntries geo) \<and> adminCandidate m \<and>
        (\<forall>e \<in> set (administrativeEntries geo).
           adminCandidate e \<longrightarrow> \<not> js_lt (orZero (adminLevel m)) (orZero (adminLevel e))) \<and>
        (\<exists>pre post.
           filter adminCandidate (administrativeEntries geo) = pre @ m # post \<and>
           (\<forall>e \<in> set pre. js_lt (orZero (adminLevel e)) (orZero (adminLevel m))))"
    using firstHighest_filter[of adminCandidate "\<lambda>e. orZero (adminLevel e)" 8,
        OF adminCandidate_level]
      firstHighest_first[of "\<lambda>e. orZero (adminLevel e)"
        "filter adminCandidate (administrativeEntries geo)"]
    by blast
  with extractLocationLabel_chain[of geo] townshipExample_label show ?thesis by blast
qed

theorem extractLocationLabel_precedence_witness:
  "firstHighest (\<lambda>e. orZero (adminLevel e))
     (filter adminCandidate (administrativeEntries townshipsResponse)) =
     Some \<lparr>name = ''Canal Winchester'', order = Some (Num 12), adminLevel = Some (Num 8),
           description = None\<rparr> \<and>
   adminCandidate \<lparr>name = ''Canal Winchester'', order = Some (Num 12), adminLevel = Some (Num 8),
                   description = None\<rparr> \<and>
   extractLocationLabel townshipsResponse = ''Canal Winchester''"
proof -
  have fh: "firstHighest (\<lambda>e. orZero (adminLevel e))
      (filter adminCandidate (administrativeEntries townshipsResponse)) =
     Some \<lparr>name = ''Canal Winchester'', order = Some (Num 12), adminLevel = Some (Num 8),
           description = None\<rparr>"
    by code_simp
  have u: "\<not> usablePlace (locality townshipsResponse)" "\<not> usablePlace (city townshipsResponse)"
    by code_simp+
  show ?thesis
    using extractLocationLabel_precedence[of townshipsResponse] fh u by simp
qed

text \<open>
  For the locality \<open>Township of Madison\<close> with the informative entry
  \<open>Canal Winchester\<close>, the result is not \<open>Canal Winchester\<close>.
\<close>

theorem extractLocationLabel_informative_counterexample:
  "extractLocationLabel townshipExample \<noteq> ''Canal Winchester''"
  by (simp add: townshipExample_label)

lemma steps_localityInfo:
  "localityStep (geo\<lparr>localityInfo := v\<rparr>) = localityStep geo"
  "cityStep (geo\<lparr>localityInfo := v\<rparr>) = cityStep geo"
  "subdivisionStep (geo\<lparr>localityInfo := v\<rparr>) = subdivisionStep geo"
  by (simp_all add: localityStep_def cityStep_def subdivisionStep_def)

lemma administrativeStep_informative:
  "administrativeStep (geo\<lparr>localityInfo := Some (li\<lparr>informative := i\<rparr>)\<rparr>) =
   administrativeStep (geo\<lparr>localityInfo := Some (li\<lparr>informative := i'\<rparr>)\<rparr>)"
  "administrativeStep (geo\<lparr>localityInfo := Some \<lparr>administrative = None, informative = i\<rparr>\<rparr>) =
   administrativeStep (geo\<lparr>localityInfo := None\<rparr>)"
  by (simp_all add: administrativeStep_def)

lemma label_informative:
  "extractLocationLabel (geo\<lparr>localityInfo := Some (li\<lparr>informative := i\<rparr>)\<rparr>) =
   extractLocationLabel (geo\<lparr>localityInfo := Some (li\<lparr>informative := i'\<rparr>)\<rparr>)"
  unfolding extractLocationLabel_def steps_localityInfo
    administrativeStep_informative(1)[where i = i and i' = i'] ..

lemma label_no_administrative:
  "extractLocationLabel (geo\<lparr>localityInfo := Some \<lparr>administrative = None, informative = i\<rparr>\<rparr>) =
   extractLocationLabel (geo\<lparr>localityInfo := None\<rparr>)"
  unfolding extractLocationLabel_def steps_localityInfo administrativeStep_informative(2) ..

lemma label_sources:
  "extractLocationLabel geo \<in>
     set ([trimmed (locality geo), trimmed (city geo)] @ map name (administrativeEntries geo) @
          [trimmed (principalSubdivision geo), []])"
proof (cases "firstHighest (\<lambda>e. orZero (adminLevel e))
                (filter adminCandidate (administrativeEntries geo))")
  case None
  then show ?thesis
    unfolding extractLocationLabel_chain by simp
next
  case (Some m)
  then have "m \<in> set (administrativeEntries geo)"
    using firstHighest_in[OF Some] by simp
  then have "name m \<in> name ` set (administrativeEntries geo)" by (rule imageI)
  then show ?thesis
    unfolding extractLocationLabel_chain Some by simp
qed

text \<open>
  C2. For the response of Canal Winchester (locality \<open>Canal Winchester\<close>, city
  \<open>Township of Madison\<close>, informative entries \<open>America/New_York\<close>, \<open>43110\<close> and
  \<open>39-045-80206\<close> among others) the result is \<open>Canal Winchester\<close>. No result is drawn
  from the informative entries: the result does not change when they are replaced or
  removed, and it is always the trimmed locality, the trimmed city, the name of an
  administrative entry, the trimmed \<open>principalSubdivision\<close> or the empty string.
\<close>

theorem extractLocationLabel_not_from_informative:
  "extractLocationLabel canalWinchesterFixture = ''Canal Winchester'' \<and>
   extractLocationLabel canalWinchesterFixture \<notin> set [''43110'', ''39-045-80206'', ''America/New_York''] \<and>
   extractLocationLabel (geo\<lparr>localityInfo := Some (li\<lparr>informative := i\<rparr>)\<rparr>) =
     extractLocationLabel (geo\<lparr>localityInfo := Some (li\<lparr>informative := i'\<rparr>)\<rparr>) \<and>
   extractLocationLabel (geo\<lparr>localityInfo := Some \<lparr>administrative = None, informative = i\<rparr>\<rparr>) =
     extractLocationLabel (geo\<lparr>localityInfo := None\<rparr>) \<and>
   extractLocationLabel geo \<in>
     set ([trimmed (locality geo), trimmed (city geo)] @ map name (administrativeEntries geo) @
          [trimmed (principalSubdivision geo), []])"
proof -
  have "extractLocationLabel canalWinchesterFixture \<notin>
      set [''43110'', ''39-045-80206'', ''America/New_York'']"
    by (simp add: fixture_label)
  with fixture_label label_informative[where geo = geo and li = li and i = i and i' = i']
    label_no_administrative[where geo = geo and i = i] label_sources[of geo]
  show ?thesis by blast
qed

end
